theory Spec2Isabelle
  imports Complex_Main
begin

section \<open>JavaScript values as the frontend uses them\<close>

text \<open>
  The attendance code works on strings: a time of day is a text such as \<open>''09:10''\<close>, an
  optional property is either missing (\<open>undefined\<close>, here \<open>None\<close>) or a string. The
  three primitives the code applies to them are modelled here as JavaScript defines them.

  \<^item> \<open>a < b\<close> on two strings compares them code unit by code unit; a proper prefix is
    smaller. \<open>a > b\<close> is \<open>b < a\<close>, and \<open>a >= b\<close> is the negation of \<open>a < b\<close>
    (between strings the comparison is never undefined).
  \<^item> \<open>!x\<close> holds of a missing value and of the empty string.
  \<^item> \<open>s + x\<close> appends the text of \<open>x\<close>; the text of \<open>undefined\<close> is
    \<open>''undefined''\<close>.

  Characters are bytes here, which covers the digits and the colon the times are made of.
\<close>

fun js_lt :: "string \<Rightarrow> string \<Rightarrow> bool" where
  "js_lt [] [] = False"
| "js_lt [] (y # ys) = True"
| "js_lt (x # xs) [] = False"
| "js_lt (x # xs) (y # ys) =
     (if (of_char x :: nat) < of_char y then True
      else if (of_char y :: nat) < of_char x then False
      else js_lt xs ys)"

definition js_gt :: "string \<Rightarrow> string \<Rightarrow> bool" where
  "js_gt a b = js_lt b a"

definition js_ge :: "string \<Rightarrow> string \<Rightarrow> bool" where
  "js_ge a b = (\<not> js_lt a b)"

definition falsy :: "string option \<Rightarrow> bool" where
  "falsy v = (case v of None \<Rightarrow> True | Some s \<Rightarrow> s = [])"

definition js_text :: "string option \<Rightarrow> string" where
  "js_text v = (case v of None \<Rightarrow> ''undefined'' | Some s \<Rightarrow> s)"

text \<open>
  \<open>name.trim()\<close> drops white space and line terminators at both ends (those of the
  byte range: tab, line feed, vertical tab, form feed, carriage return, space, no-break
  space).
\<close>

definition isWhiteSpace :: "char \<Rightarrow> bool" where
  "isWhiteSpace c = ((of_char c :: nat) \<in> {9, 10, 11, 12, 13, 32, 160})"

definition trim :: "string \<Rightarrow> string" where
  "trim s = rev (dropWhile isWhiteSpace (rev (dropWhile isWhiteSpace s)))"

text \<open>
  The tolerance of the schedule form is a JavaScript number: \<open>Number(e.target.value)\<close>.
  The validation only asks whether it is \<open>NaN\<close> and whether it is below zero, so a
  number is modelled as \<open>NaN\<close> or a real value (the infinities, which a number field
  does not produce, are left out); \<open>x < 0\<close> is false of \<open>NaN\<close>.
\<close>

datatype number = NaN | Num real

fun isNaN :: "number \<Rightarrow> bool" where
  "isNaN NaN = True"
| "isNaN (Num x) = False"

fun num_lt :: "number \<Rightarrow> real \<Rightarrow> bool" where
  "num_lt NaN y = False"
| "num_lt (Num x) y = (x < y)"

section \<open>The attendance helpers of the agent page\<close>

subsection \<open>The data the page receives\<close>

text \<open>
  \<open>DailyAttendanceDetails\<close> of \<open>lib/api\<close>: the record of one agent and one day as the
  API delivers it. The overall \<open>status\<close> and \<open>workHours\<close> arrive with it; the page does
  not compute them.
\<close>

datatype AttendanceStatus = Present | Absent | Late | Leave | Half_day

record DailyAttendanceDetails =
  attendanceId :: string
  matricule :: string
  date :: string
  morningCheckIn :: "string option"
  morningCheckOut :: "string option"
  afternoonCheckIn :: "string option"
  afternoonCheckOut :: "string option"
  status :: AttendanceStatus
  workHours :: "string option"
  entree_matin :: "string option"
  sortie_matin :: "string option"
  entree_aprem :: "string option"
  sortie_aprem :: "string option"
  tolerance :: "string option"
  conge :: "bool option"
  type_abs :: "string option"

subsection \<open>\<open>isLate\<close> and \<open>formatTimeWithStatus\<close>, the variant with a tolerance\<close>

text \<open>
  \<^verbatim>\<open>
  const isLate = (actualTime?: string, scheduledTime?: string, tol?: string): boolean => {
    if (!actualTime || !scheduledTime) return false;
    return actualTime > (scheduledTime + tol);
  };
  \<close>
  \<open>scheduledTime + tol\<close> is string concatenation. Were \<open>tol\<close> a number at run time, its
  decimal text would be appended all the same.
\<close>

definition isLate :: "string option \<Rightarrow> string option \<Rightarrow> string option \<Rightarrow> bool" where
  "isLate actualTime scheduledTime tol =
     (if falsy actualTime \<or> falsy scheduledTime then False
      else js_gt (js_text actualTime) (js_text scheduledTime @ js_text tol))"

text \<open>
  \<^verbatim>\<open>
  const formatTimeWithStatus = (time?: string, scheduledTime?: string,
      type: 'arrival' | 'departure' = 'arrival', tol?: string) => {
    if (!time) return { time: 'Not recorded', status: 'absent' };
    const late = type === 'arrival' ? isLate(time, scheduledTime, tol) : false;
    const early = type === 'departure' && scheduledTime ? time < scheduledTime : false;
    return { time, status: late ? 'late' : early ? 'early' : 'ontime' };
  };
  \<close>
  The parameter \<open>time\<close> is written \<open>t\<close>, since \<open>time\<close> names the field of the result.
  The two statuses are kept as the strings they are.
\<close>

datatype occasion = arrival | departure

record TimeWithStatus =
  time :: string
  status :: string

definition formatTimeWithStatus ::
  "string option \<Rightarrow> string option \<Rightarrow> occasion \<Rightarrow> string option \<Rightarrow> TimeWithStatus" where
  "formatTimeWithStatus t scheduledTime type tol =
     (if falsy t then \<lparr>time = ''Not recorded'', status = ''absent''\<rparr>
      else
        let late = (if type = arrival then isLate t scheduledTime tol else False);
            early = (if type = departure \<and> \<not> falsy scheduledTime
                     then js_lt (js_text t) (js_text scheduledTime) else False)
        in \<lparr>time = js_text t,
            status = (if late then ''late'' else if early then ''early'' else ''ontime'')\<rparr>)"

subsection \<open>The variant without a tolerance\<close>

text \<open>
  The second copy of the page (\<open>components/pages/Settings.tsx\<close>) has the same two helpers
  without the \<open>tol\<close> parameter: \<open>return actualTime > scheduledTime;\<close>.
\<close>

definition isLate_Settings :: "string option \<Rightarrow> string option \<Rightarrow> bool" where
  "isLate_Settings actualTime scheduledTime =
     (if falsy actualTime \<or> falsy scheduledTime then False
      else js_gt (js_text actualTime) (js_text scheduledTime))"

definition formatTimeWithStatus_Settings ::
  "string option \<Rightarrow> string option \<Rightarrow> occasion \<Rightarrow> TimeWithStatus" where
  "formatTimeWithStatus_Settings t scheduledTime type =
     (if falsy t then \<lparr>time = ''Not recorded'', status = ''absent''\<rparr>
      else
        let late = (if type = arrival then isLate_Settings t scheduledTime else False);
            early = (if type = departure \<and> \<not> falsy scheduledTime
                     then js_lt (js_text t) (js_text scheduledTime) else False)
        in \<lparr>time = js_text t,
            status = (if late then ''late'' else if early then ''early'' else ''ontime'')\<rparr>)"

subsection \<open>The daily attendance panel\<close>

text \<open>
  The panel of the agent page decides what one day shows. Its layout and the texts of the
  times are left out; the view keeps each decision the JSX takes:
  \<^verbatim>\<open>
  loadingAttendance ? <p>Chargement ...</p>
  : dailyAttendance ? (
      dailyAttendance.conge ? <p>Agent en {dailyAttendance.type_abs}</p>
      : <> four cards, the temporary exits, the status badge, the work hours </> )
  : <p>Aucun Pointage pour ce Jour</p>
  \<close>
  An arrival card shows an icon only when the check-in is recorded:
  \<open>AlertCircle\<close> when \<open>formatTimeWithStatus(checkIn, entree, 'arrival', tolerance).status\<close>
  is \<open>'late'\<close>, \<open>CheckCircle\<close> otherwise. A departure card shows \<open>XCircle\<close> when
  \<open>formatTimeWithStatus(checkOut, sortie, 'departure').status\<close> is \<open>'early'\<close>. The status
  badge prints \<open>dailyAttendance.status\<close>, with \<open>'Late'\<close> rendered as \<open>'En retard'\<close>.
\<close>

datatype icon = AlertCircle | XCircle | CheckCircle | Clock

datatype 'e panel =
    Chargement
  | AgentEn "string option"
  | Pointage "icon option" "icon option" "icon option" "icon option" "'e list" string "string option"
  | AucunPointage

fun statusText :: "AttendanceStatus \<Rightarrow> string" where
  "statusText Present = ''Present''"
| "statusText Absent = ''Absent''"
| "statusText Late = ''Late''"
| "statusText Leave = ''Leave''"
| "statusText Half_day = ''Half-day''"

definition arrivalIcon :: "string option \<Rightarrow> string option \<Rightarrow> string option \<Rightarrow> icon option" where
  "arrivalIcon checkIn entree tol =
     (if falsy checkIn then None
      else Some (if status (formatTimeWithStatus checkIn entree arrival tol) = ''late''
                 then AlertCircle else CheckCircle))"

definition departureIcon :: "string option \<Rightarrow> string option \<Rightarrow> icon option" where
  "departureIcon checkOut sortie =
     (if falsy checkOut then None
      else Some (if status (formatTimeWithStatus checkOut sortie departure None) = ''early''
                 then XCircle else CheckCircle))"

definition attendancePanel ::
  "bool \<Rightarrow> DailyAttendanceDetails option \<Rightarrow> 'e list \<Rightarrow> 'e panel" where
  "attendancePanel loadingAttendance dailyAttendance temporaryExits =
     (if loadingAttendance then Chargement
      else case dailyAttendance of
          None \<Rightarrow> AucunPointage
        | Some d \<Rightarrow>
            if conge d = Some True then AgentEn (type_abs d)
            else Pointage
              (arrivalIcon (morningCheckIn d) (entree_matin d) (tolerance d))
              (departureIcon (morningCheckOut d) (sortie_matin d))
              (arrivalIcon (afternoonCheckIn d) (entree_aprem d) (tolerance d))
              (departureIcon (afternoonCheckOut d) (sortie_aprem d))
              temporaryExits
              (if DailyAttendanceDetails.status d = Late then ''En retard''
               else statusText (DailyAttendanceDetails.status d))
              (if falsy (workHours d) then None else workHours d))"

text \<open>What the status badge and the work-hours line of a panel print, if they are there.\<close>

fun statusShown :: "'e panel \<Rightarrow> string option" where
  "statusShown (Pointage ma md aa ad ex st wh) = Some st"
| "statusShown _ = None"

fun workHoursShown :: "'e panel \<Rightarrow> string option" where
  "workHoursShown (Pointage ma md aa ad ex st wh) = wh"
| "workHoursShown _ = None"

subsection \<open>The daily attendance panel of the second copy\<close>


section \<open>The validation of the schedule form\<close>

text \<open>
  \<open>validateSchedule\<close> of the work-schedule page reads six properties of the form state.
  The four times come from \<open><input type="time">\<close> fields, whose value is a text
  \<open>HH:MM\<close> or, for a cleared field, the empty string. Each \<open>return false\<close> is preceded by a
  toast, which is not modelled.
  \<^verbatim>\<open>
  if (!name || !name.trim()) return false;
  if (morningStart >= morningEnd) return false;
  if (afternoonStart >= afternoonEnd) return false;
  if (morningEnd > afternoonStart) return false;
  if (isNaN(tolerance) || tolerance < 0) return false;
  return true;
  \<close>
\<close>

record WorkSchedule =
  name :: string
  morningStart :: string
  morningEnd :: string
  afternoonStart :: string
  afternoonEnd :: string
  tolerance :: number
  isActive :: bool

definition validateSchedule :: "WorkSchedule \<Rightarrow> bool" where
  "validateSchedule schedule =
     (if name schedule = [] \<or> trim (name schedule) = [] then False
      else if js_ge (morningStart schedule) (morningEnd schedule) then False
      else if js_ge (afternoonStart schedule) (afternoonEnd schedule) then False
      else if js_gt (morningEnd schedule) (afternoonStart schedule) then False
      else if isNaN (tolerance schedule) \<or> num_lt (tolerance schedule) 0 then False
      else True)"

section \<open>Times of day read as minutes\<close>

text \<open>
  The specification speaks of times of day \<open>HH:MM\<close> and of arithmetic in minutes. A
  well-formed time has two digits, a colon and two digits, with the hour below 24 and the
  minute below 60; \<open>minutesOf\<close> is its number of minutes since midnight (and 0 for
  any other text).
\<close>

definition isDigit :: "char \<Rightarrow> bool" where
  "isDigit c = (48 \<le> (of_char c :: nat) \<and> (of_char c :: nat) \<le> 57)"

definition digitVal :: "char \<Rightarrow> nat" where
  "digitVal c = of_char c - 48"

fun wf_hhmm :: "string \<Rightarrow> bool" where
  "wf_hhmm [h1, h2, c, m1, m2] =
     (isDigit h1 \<and> isDigit h2 \<and> c = CHR '':'' \<and> isDigit m1 \<and> isDigit m2 \<and>
      10 * digitVal h1 + digitVal h2 < 24 \<and> 10 * digitVal m1 + digitVal m2 < 60)"
| "wf_hhmm _ = False"

fun minutesOf :: "string \<Rightarrow> int" where
  "minutesOf [h1, h2, c, m1, m2] =
     int ((10 * digitVal h1 + digitVal h2) * 60 + (10 * digitVal m1 + digitVal m2))"
| "minutesOf _ = 0"

text \<open>
  The invariant of a schedule as the specification words it, on times of day:
  \<open>morningStart < morningEnd <= afternoonStart < afternoonEnd\<close>.
\<close>

definition timesInOrder :: "string \<Rightarrow> string \<Rightarrow> string \<Rightarrow> string \<Rightarrow> bool" where
  "timesInOrder ms me as ae =
     (wf_hhmm ms \<and> wf_hhmm me \<and> wf_hhmm as \<and> wf_hhmm ae \<and>
      minutesOf ms < minutesOf me \<and> minutesOf me \<le> minutesOf as \<and>
      minutesOf as < minutesOf ae)"

section \<open>The evaluator of the specification\<close>

text \<open>
  The specification describes one function \<open>evaluate(schedule, record, exits)\<close> that
  derives the status of a day and its worked minutes. The frontend has no such function:
  it classifies each check-in and check-out by \<open>formatTimeWithStatus\<close> and prints the
  overall status and the work hours the API delivers. The evaluator below is therefore
  written from the specification, in its words: times are compared and subtracted as
  minutes.

  Modelled from the spec: the data model of section 3 (\<open>ScheduleDefinition\<close>,
  \<open>DailyAttendanceRecord\<close>, \<open>TemporaryExit\<close>, \<open>EvaluatedStatus\<close>), with times of day
  as the texts \<open>HH:MM\<close> the code has. The fields share their names with those of the
  records of the code above, which are written with their record's name from here on
  (\<open>WorkSchedule.morningStart\<close>, \<open>DailyAttendanceDetails.morningCheckIn\<close>).
\<close>

record ScheduleDefinition =
  morningStart :: string
  morningEnd :: string
  afternoonStart :: string
  afternoonEnd :: string
  toleranceMinutes :: nat

record DailyAttendanceRecord =
  date :: string
  morningCheckIn :: "string option"
  morningCheckOut :: "string option"
  afternoonCheckIn :: "string option"
  afternoonCheckOut :: "string option"
  onLeave :: bool
  leaveType :: string

record TemporaryExit =
  exitTime :: string
  returnTime :: "string option"

datatype Status = Present | Late | EarlyDeparture | Absent | OnLeave

record EvaluatedStatus =
  dayStatus :: Status
  workedMinutes :: int
  missedMinutes :: int

text \<open>
  Modelled from the spec: the time of day a field of the record holds. The fields of the
  specification are times of day or absent; a text that is not a time of day is no
  recorded time either.
\<close>

definition recordedTime :: "string option \<Rightarrow> int option" where
  "recordedTime v =
     (case v of
        None \<Rightarrow> None
      | Some s \<Rightarrow> if wf_hhmm s then Some (minutesOf s) else None)"

text \<open>
  Modelled from the spec: the lateness of a half-day arrival, computed for each half-day
  on its own. An arrival \<open>t\<close> is late if and only if
  \<open>t > scheduledStart + toleranceMinutes\<close>, in minutes.
\<close>

definition lateArrival :: "ScheduleDefinition \<Rightarrow> string option \<Rightarrow> string \<Rightarrow> bool" where
  "lateArrival schedule checkIn start =
     (case recordedTime checkIn of
        None \<Rightarrow> False
      | Some t \<Rightarrow> minutesOf start + int (toleranceMinutes schedule) < t)"

text \<open>
  Modelled from the spec: the earliness of a half-day departure. A departure \<open>t\<close> is
  early if and only if \<open>t < scheduledEnd\<close>; a departure is given no tolerance.
\<close>

definition earlyDeparture :: "string option \<Rightarrow> string \<Rightarrow> bool" where
  "earlyDeparture checkOut finish =
     (case recordedTime checkOut of
        None \<Rightarrow> False
      | Some t \<Rightarrow> t < minutesOf finish)"

text \<open>
  Modelled from the spec: the worked span of a half-day, which the frontend does not
  compute (\<open>workHours\<close> arrives from the API). It is \<open>checkOut - checkIn\<close> when both
  are recorded, clamped to zero when the check-out precedes the check-in, and 0 when an
  endpoint is missing.
\<close>

definition workedSpan :: "string option \<Rightarrow> string option \<Rightarrow> int" where
  "workedSpan checkIn checkOut =
     (case recordedTime checkIn of
        None \<Rightarrow> 0
      | Some a \<Rightarrow>
          (case recordedTime checkOut of
             None \<Rightarrow> 0
           | Some b \<Rightarrow> max 0 (b - a)))"

text \<open>
  Modelled from the spec: whether the interval from \<open>a\<close> to \<open>b\<close> lies within the
  recorded working span of a half-day, both of whose ends must be recorded.
\<close>

definition withinSpan :: "string option \<Rightarrow> string option \<Rightarrow> string \<Rightarrow> string \<Rightarrow> bool" where
  "withinSpan checkIn checkOut a b =
     (case recordedTime checkIn of
        None \<Rightarrow> False
      | Some i \<Rightarrow>
          (case recordedTime checkOut of
             None \<Rightarrow> False
           | Some out \<Rightarrow> i \<le> minutesOf a \<and> minutesOf b \<le> out))"

text \<open>
  Modelled from the spec: the minutes a temporary exit takes off the worked time, which
  the frontend does not compute. A closed exit counts its duration
  \<open>returnTime - exitTime\<close> when its interval lies within a recorded working span. An open
  exit counts the time elapsed up to now when the record is of today, and nothing when
  the record is of a past day. The clock the rule reads is the explicit argument
  \<open>now\<close>: today's date and the current time.
\<close>

definition exitDeduction :: "string \<times> string \<Rightarrow> DailyAttendanceRecord \<Rightarrow> TemporaryExit \<Rightarrow> int" where
  "exitDeduction now r e =
     (case returnTime e of
        Some back \<Rightarrow>
          if withinSpan (morningCheckIn r) (morningCheckOut r) (exitTime e) back \<or>
             withinSpan (afternoonCheckIn r) (afternoonCheckOut r) (exitTime e) back
          then minutesOf back - minutesOf (exitTime e) else 0
      | None \<Rightarrow>
          if date r = fst now then minutesOf (snd now) - minutesOf (exitTime e) else 0)"

text \<open>
  Modelled from the spec: \<open>evaluate\<close> itself, which is not in the sources. Leave comes
  first; then a day with no time recorded is absent; otherwise the day is late if either
  arrival is late, else an early departure if either departure is early, else present.
  The worked minutes are the two spans less the exits; the missed minutes are the
  scheduled total less the worked minutes, floored at zero.
\<close>

definition evaluate ::
  "string \<times> string \<Rightarrow> ScheduleDefinition \<Rightarrow> DailyAttendanceRecord \<Rightarrow> TemporaryExit list
     \<Rightarrow> EvaluatedStatus" where
  "evaluate now schedule r exits =
     (let scheduledTotal =
            (minutesOf (morningEnd schedule) - minutesOf (morningStart schedule)) +
            (minutesOf (afternoonEnd schedule) - minutesOf (afternoonStart schedule));
          result = (\<lambda>st worked.
            \<lparr>dayStatus = st, workedMinutes = worked,
             missedMinutes = max 0 (scheduledTotal - worked)\<rparr>)
      in if onLeave r then result OnLeave 0
         else if falsy (morningCheckIn r) \<and> falsy (morningCheckOut r) \<and>
                 falsy (afternoonCheckIn r) \<and> falsy (afternoonCheckOut r)
           then result Absent 0
         else result
           (if lateArrival schedule (morningCheckIn r) (morningStart schedule) \<or>
               lateArrival schedule (afternoonCheckIn r) (afternoonStart schedule)
            then Late
            else if earlyDeparture (morningCheckOut r) (morningEnd schedule) \<or>
                    earlyDeparture (afternoonCheckOut r) (afternoonEnd schedule)
            then EarlyDeparture
            else Present)
           (workedSpan (morningCheckIn r) (morningCheckOut r) +
            workedSpan (afternoonCheckIn r) (afternoonCheckOut r) -
            sum_list (map (exitDeduction now r) exits)))"

section \<open>Example days\<close>

text \<open>
  A day as the API may deliver it, with its overall status as a parameter: the agent
  arrives at the scheduled 09:00 and 13:00, leaves at 12:00 and leaves again at 16:45,
  a quarter of an hour before the scheduled 17:00.
\<close>

definition dayLeftEarly :: "AttendanceStatus \<Rightarrow> DailyAttendanceDetails" where
  "dayLeftEarly st =
     \<lparr>attendanceId = ''att-1'', matricule = ''ag-1'', DailyAttendanceDetails.date = ''2025-10-09'',
      DailyAttendanceDetails.morningCheckIn = Some ''09:00'',
      DailyAttendanceDetails.morningCheckOut = Some ''12:00'',
      DailyAttendanceDetails.afternoonCheckIn = Some ''13:00'',
      DailyAttendanceDetails.afternoonCheckOut = Some ''16:45'',
      DailyAttendanceDetails.status = st, workHours = Some ''6h 45'',
      entree_matin = Some ''09:00'', sortie_matin = Some ''12:00'',
      entree_aprem = Some ''13:00'', sortie_aprem = Some ''17:00'',
      DailyAttendanceDetails.tolerance = Some ''15'', conge = Some False, type_abs = None\<rparr>"


section \<open>Properties\<close>

subsection \<open>The order of strings and the order of times\<close>

text \<open>A suffix appended to the right-hand string of equal length never decides.\<close>

lemma js_lt_append_same_length:
  "length a = length s \<Longrightarrow> tol \<noteq> [] \<Longrightarrow> js_lt (s @ tol) a = js_lt s a"
proof (induction a s rule: list_induct2)
  case Nil
  then show ?case by (cases tol) simp_all
next
  case (Cons x xs y ys)
  then show ?case by simp
qed

lemma wf_hhmm_length: "wf_hhmm t \<Longrightarrow> length t = 5"
  by (induction t rule: wf_hhmm.induct) simp_all

lemma wf_hhmm_not_falsy: "wf_hhmm t \<Longrightarrow> \<not> falsy (Some t)"
  by (auto simp: falsy_def dest: wf_hhmm_length)

lemma wf_hhmm_elim:
  assumes "wf_hhmm t"
  obtains h1 h2 m1 m2 where "t = [h1, h2, CHR '':'', m1, m2]"
    and "isDigit h1" "isDigit h2" "isDigit m1" "isDigit m2"
    and "10 * digitVal h1 + digitVal h2 < 24" "10 * digitVal m1 + digitVal m2 < 60"
  using assms by (induction t rule: wf_hhmm.induct) simp_all

lemma digit_lt:
  "isDigit a \<Longrightarrow> isDigit b \<Longrightarrow> ((of_char a :: nat) < of_char b) = (digitVal a < digitVal b)"
  by (auto simp: isDigit_def digitVal_def)

lemma digit_le9: "isDigit a \<Longrightarrow> digitVal a \<le> 9"
  by (auto simp: isDigit_def digitVal_def)

lemma lex_minutes:
  fixes a b c d a' b' c' d' :: nat
  assumes "b \<le> 9" "b' \<le> 9" "d \<le> 9" "d' \<le> 9" "10 * c + d < 60" "10 * c' + d' < 60"
  shows "(if a < a' then True else if a' < a then False
          else if b < b' then True else if b' < b then False
          else if c < c' then True else if c' < c then False
          else d < d')
       = ((10 * a + b) * 60 + (10 * c + d) < (10 * a' + b') * 60 + (10 * c' + d'))"
  using assms by (simp split: if_splits)

text \<open>On well-formed times the string order of the code is the order of the minutes.\<close>

lemma js_lt_minutes:
  assumes "wf_hhmm t" "wf_hhmm e"
  shows "js_lt t e = (minutesOf t < minutesOf e)"
proof -
  from assms(1) obtain a b c d where t: "t = [a, b, CHR '':'', c, d]"
    and ta: "isDigit a" "isDigit b" "isDigit c" "isDigit d"
    and tm: "10 * digitVal c + digitVal d < 60"
    by (rule wf_hhmm_elim)
  from assms(2) obtain a' b' c' d' where e: "e = [a', b', CHR '':'', c', d']"
    and ea: "isDigit a'" "isDigit b'" "isDigit c'" "isDigit d'"
    and em: "10 * digitVal c' + digitVal d' < 60"
    by (rule wf_hhmm_elim)
  have "js_lt t e =
         (if digitVal a < digitVal a' then True else if digitVal a' < digitVal a then False
          else if digitVal b < digitVal b' then True else if digitVal b' < digitVal b then False
          else if digitVal c < digitVal c' then True else if digitVal c' < digitVal c then False
          else digitVal d < digitVal d')"
    unfolding t e by (simp add: digit_lt ta ea)
  also have "\<dots> = ((10 * digitVal a + digitVal b) * 60 + (10 * digitVal c + digitVal d)
       < (10 * digitVal a' + digitVal b') * 60 + (10 * digitVal c' + digitVal d'))"
    by (rule lex_minutes) (use ta ea tm em digit_le9 in auto)
  also have "\<dots> = (minutesOf t < minutesOf e)"
    unfolding t e minutesOf.simps by (simp only: of_nat_less_iff)
  finally show ?thesis .
qed

subsection \<open>Lateness\<close>

text \<open>
  C1. The claim: an arrival is late exactly when it is later than the scheduled start
  plus the tolerance, counted in minutes; an arrival at \<open>start + tolerance\<close> is on time.
  The code appends the tolerance to the text of the start: \<open>'09:00' + '15'\<close> is
  \<open>'09:0015'\<close>, and \<open>'09:15'\<close> is the greater string. With a start of 09:00 and a
  tolerance of 15 minutes, \<open>isLate\<close> answers true for the arrival at 09:15, which is
  exactly \<open>start + tolerance\<close>, and for the arrival at 09:01, which is within it.
\<close>

theorem isLate_at_tolerance_boundary:
  "isLate (Some ''09:15'') (Some ''09:00'') (Some ''15'') \<and>
   minutesOf ''09:15'' = minutesOf ''09:00'' + 15 \<and>
   isLate (Some ''09:01'') (Some ''09:00'') (Some ''15'') \<and>
   minutesOf ''09:01'' < minutesOf ''09:00'' + 15"
  by (simp add: isLate_def falsy_def js_text_def js_gt_def digitVal_def)

text \<open>
  C2. The claim: with the schedule 09:00-12:00 and 13:00-17:00, a tolerance of 15 minutes
  and the check-ins 09:10, 12:00, 13:00, 17:00, the 09:10 arrival is within the
  tolerance, so the day is Present. On this very input the code classifies the morning
  arrival late and the panel shows the alert icon, though 09:10 is before
  \<open>start + tolerance\<close>: \<open>'09:10'\<close> is greater than the string \<open>'09:0015'\<close>.
\<close>

theorem example_arrival_within_tolerance_is_late:
  "status (formatTimeWithStatus (Some ''09:10'') (Some ''09:00'') arrival (Some ''15'')) = ''late'' \<and>
   arrivalIcon (Some ''09:10'') (Some ''09:00'') (Some ''15'') = Some AlertCircle \<and>
   minutesOf ''09:10'' < minutesOf ''09:00'' + 15"
  by (simp add: arrivalIcon_def formatTimeWithStatus_def isLate_def falsy_def js_text_def js_gt_def
      digitVal_def)

text \<open>
  C10. The two copies of \<open>isLate\<close> agree: for well-formed times \<open>HH:MM\<close> and a tolerance
  that is a non-empty string of digits, the copy that appends the tolerance answers what
  the copy without a tolerance answers, namely \<open>actualTime > scheduledTime\<close>. The
  appended tolerance never changes the result.
\<close>

theorem isLate_tolerance_no_effect:
  assumes "wf_hhmm actualTime" and "wf_hhmm scheduledTime"
    and "tol \<noteq> []" and "list_all isDigit tol"
  shows "isLate (Some actualTime) (Some scheduledTime) (Some tol)
           = isLate_Settings (Some actualTime) (Some scheduledTime) \<and>
         isLate_Settings (Some actualTime) (Some scheduledTime)
           = js_gt actualTime scheduledTime"
proof -
  have len: "length actualTime = length scheduledTime"
    using assms(1,2) by (simp add: wf_hhmm_length)
  have nf: "\<not> falsy (Some actualTime)" "\<not> falsy (Some scheduledTime)"
    using assms(1,2) by (simp_all add: wf_hhmm_not_falsy)
  show ?thesis
    using nf js_lt_append_same_length [OF len assms(3)]
    by (simp add: isLate_def isLate_Settings_def js_gt_def js_text_def)
qed

theorem isLate_tolerance_no_effect_witness:
  "wf_hhmm ''09:10'' \<and> wf_hhmm ''09:00'' \<and> ''15'' \<noteq> [] \<and> list_all isDigit ''15'' \<and>
   isLate (Some ''09:10'') (Some ''09:00'') (Some ''15'') \<and>
   isLate_Settings (Some ''09:10'') (Some ''09:00'') \<and>
   js_gt ''09:10'' ''09:00''"
proof -
  have w: "wf_hhmm ''09:10''" "wf_hhmm ''09:00''"
    by (simp_all add: isDigit_def digitVal_def)
  have t: "''15'' \<noteq> []" "list_all isDigit ''15''"
    by (simp_all add: isDigit_def)
  have g: "js_gt ''09:10'' ''09:00''"
    by (simp add: js_gt_def)
  show ?thesis
    using isLate_tolerance_no_effect [OF w t] w t g by simp
qed

subsection \<open>Early departure\<close>

text \<open>
  C3. A recorded departure is classified early exactly when it is strictly before the
  scheduled end of its half-day. No tolerance enters: the result is the same for every
  \<open>tol\<close>, and the copy without a tolerance answers alike. Times are well-formed
  \<open>HH:MM\<close> texts, as the API documents them.
\<close>

theorem departure_early_iff_before_end:
  assumes "wf_hhmm t" and "wf_hhmm e"
  shows "(status (formatTimeWithStatus (Some t) (Some e) departure tol) = ''early'')
           = (minutesOf t < minutesOf e) \<and>
         (status (formatTimeWithStatus_Settings (Some t) (Some e) departure) = ''early'')
           = (minutesOf t < minutesOf e)"
  using wf_hhmm_not_falsy [OF assms(1)] wf_hhmm_not_falsy [OF assms(2)]
    js_lt_minutes [OF assms]
  by (simp add: formatTimeWithStatus_def formatTimeWithStatus_Settings_def js_text_def)

theorem departure_early_iff_before_end_witness:
  "wf_hhmm ''16:45'' \<and> wf_hhmm ''17:00'' \<and> wf_hhmm ''17:05'' \<and>
   status (formatTimeWithStatus (Some ''16:45'') (Some ''17:00'') departure (Some ''15'')) = ''early'' \<and>
   minutesOf ''16:45'' < minutesOf ''17:00'' \<and>
   status (formatTimeWithStatus (Some ''17:00'') (Some ''17:00'') departure (Some ''15'')) = ''ontime'' \<and>
   status (formatTimeWithStatus_Settings (Some ''17:05'') (Some ''17:00'') departure) = ''ontime''"
proof -
  have w: "wf_hhmm ''16:45''" "wf_hhmm ''17:00''" "wf_hhmm ''17:05''"
    by (simp_all add: isDigit_def digitVal_def)
  have m: "minutesOf ''16:45'' < minutesOf ''17:00''"
    by (simp add: digitVal_def)
  have "status (formatTimeWithStatus (Some ''16:45'') (Some ''17:00'') departure (Some ''15'')) = ''early''"
    using departure_early_iff_before_end [OF w(1) w(2), of "Some ''15''"] m by simp
  moreover have "status (formatTimeWithStatus (Some ''17:00'') (Some ''17:00'') departure (Some ''15'')) = ''ontime''"
    by (simp add: formatTimeWithStatus_def falsy_def js_text_def)
  moreover have "status (formatTimeWithStatus_Settings (Some ''17:05'') (Some ''17:00'') departure) = ''ontime''"
    by (simp add: formatTimeWithStatus_Settings_def falsy_def js_text_def)
  ultimately show ?thesis using w m by simp
qed

subsection \<open>The overall status\<close>

text \<open>
  C6, the claim as stated fails on the code. The claim derives the overall status of a
  day from its times: Late, otherwise EarlyDeparture when a departure is early,
  otherwise Present. The page does not derive it. On the day \<open>dayLeftEarly\<close> no arrival
  is late and the afternoon departure is early (the card shows \<open>XCircle\<close>); the status
  badge prints the status that came with the record, whichever of the five values of its
  type that is, and none of them is EarlyDeparture.
\<close>

theorem overall_status_not_derived:
  "attendancePanel False (Some (dayLeftEarly AttendanceStatus.Present)) ([] :: unit list)
     = Pointage (Some CheckCircle) (Some CheckCircle) (Some CheckCircle) (Some XCircle) []
         ''Present'' (Some ''6h 45'') \<and>
   statusShown (attendancePanel False (Some (dayLeftEarly AttendanceStatus.Absent)) ([] :: unit list))
     = Some ''Absent'' \<and>
   statusShown (attendancePanel False (Some (dayLeftEarly AttendanceStatus.Late)) ([] :: unit list))
     = Some ''En retard'' \<and>
   statusShown (attendancePanel False (Some (dayLeftEarly Leave)) ([] :: unit list))
     = Some ''Leave'' \<and>
   statusShown (attendancePanel False (Some (dayLeftEarly Half_day)) ([] :: unit list))
     = Some ''Half-day''"
  by (simp add: attendancePanel_def dayLeftEarly_def arrivalIcon_def departureIcon_def
      formatTimeWithStatus_def isLate_def falsy_def js_text_def js_gt_def)

text \<open>
  C6, amended. For every day that is not on leave, the overall status the panel shows is
  the status delivered with the record (Present, Absent, Late printed as \<open>En retard\<close>,
  Leave or Half-day, never EarlyDeparture), whatever the times and the exits are. The
  precedence late, otherwise early, otherwise on time is the one \<open>formatTimeWithStatus\<close>
  applies within the badge of a single time.
\<close>

theorem overall_status_is_delivered:
  assumes "conge d \<noteq> Some True"
  shows "statusShown (attendancePanel False (Some d) exits)
           = Some (if DailyAttendanceDetails.status d = AttendanceStatus.Late then ''En retard''
                   else statusText (DailyAttendanceDetails.status d)) \<and>
         statusShown (attendancePanel False (Some d) exits) \<noteq> Some ''EarlyDeparture'' \<and>
         status (formatTimeWithStatus t scheduledTime type tol)
           = (if falsy t then ''absent''
              else if type = arrival \<and> isLate t scheduledTime tol then ''late''
              else if type = departure \<and> \<not> falsy scheduledTime \<and>
                      js_lt (js_text t) (js_text scheduledTime) then ''early''
              else ''ontime'')"
proof -
  have shown: "statusShown (attendancePanel False (Some d) exits)
           = Some (if DailyAttendanceDetails.status d = AttendanceStatus.Late then ''En retard''
                   else statusText (DailyAttendanceDetails.status d))"
    using assms by (simp add: attendancePanel_def)
  have never: "(if DailyAttendanceDetails.status d = AttendanceStatus.Late then ''En retard''
                   else statusText (DailyAttendanceDetails.status d)) \<noteq> ''EarlyDeparture''"
    by (cases "DailyAttendanceDetails.status d") simp_all
  have field: "status (formatTimeWithStatus t scheduledTime type tol)
           = (if falsy t then ''absent''
              else if type = arrival \<and> isLate t scheduledTime tol then ''late''
              else if type = departure \<and> \<not> falsy scheduledTime \<and>
                      js_lt (js_text t) (js_text scheduledTime) then ''early''
              else ''ontime'')"
    by (cases type) (simp_all add: formatTimeWithStatus_def Let_def)
  show ?thesis using shown never field by simp
qed

theorem overall_status_is_delivered_witness:
  "conge (dayLeftEarly AttendanceStatus.Present) \<noteq> Some True \<and>
   statusShown (attendancePanel False (Some (dayLeftEarly AttendanceStatus.Present)) [''exit''])
     = Some ''Present'' \<and>
   status (formatTimeWithStatus (Some ''16:45'') (Some ''17:00'') departure None) = ''early''"
proof -
  have c: "conge (dayLeftEarly AttendanceStatus.Present) \<noteq> Some True"
    by (simp add: dayLeftEarly_def)
  have s: "DailyAttendanceDetails.status (dayLeftEarly AttendanceStatus.Present)
             = AttendanceStatus.Present"
    by (simp add: dayLeftEarly_def)
  have e: "status (formatTimeWithStatus (Some ''16:45'') (Some ''17:00'') departure None) = ''early''"
    by (simp add: formatTimeWithStatus_def falsy_def js_text_def)
  show ?thesis
    using overall_status_is_delivered
      [OF c, of "[''exit'']" "Some ''16:45''" "Some ''17:00''" departure None] c s e
    by simp
qed

subsection \<open>The schedule form\<close>

text \<open>
  C8, the claim as stated fails on the code. The claim: the form accepts a schedule
  exactly when its name is not blank, its four times are in order and its tolerance is a
  non-negative number, so that every schedule let through satisfies the invariant. A
  cleared morning start is the empty string, which is smaller than every time: the form
  accepts the schedule, and its times are not four times of day in order.
\<close>

theorem validateSchedule_accepts_empty_start:
  "validateSchedule \<lparr>name = ''Standard'', WorkSchedule.morningStart = [],
      WorkSchedule.morningEnd = ''12:00'', WorkSchedule.afternoonStart = ''13:00'',
      WorkSchedule.afternoonEnd = ''17:00'', tolerance = Num 15, isActive = False\<rparr> \<and>
   \<not> wf_hhmm [] \<and>
   \<not> timesInOrder [] ''12:00'' ''13:00'' ''17:00''"
  by (simp add: validateSchedule_def trim_def isWhiteSpace_def js_ge_def js_gt_def timesInOrder_def)

text \<open>
  C8, amended. For every schedule whose four times are well-formed times of day, the
  form accepts it exactly when its name is not blank, \<open>morningStart < morningEnd\<close>,
  \<open>morningEnd <= afternoonStart\<close>, \<open>afternoonStart < afternoonEnd\<close> in minutes, and its
  tolerance is a number that is not negative (whole or not).
\<close>

theorem validateSchedule_iff_invariant:
  assumes "wf_hhmm (WorkSchedule.morningStart s)" and "wf_hhmm (WorkSchedule.morningEnd s)"
    and "wf_hhmm (WorkSchedule.afternoonStart s)" and "wf_hhmm (WorkSchedule.afternoonEnd s)"
  shows "validateSchedule s =
          (name s \<noteq> [] \<and> trim (name s) \<noteq> [] \<and>
           timesInOrder (WorkSchedule.morningStart s) (WorkSchedule.morningEnd s)
             (WorkSchedule.afternoonStart s) (WorkSchedule.afternoonEnd s) \<and>
           (case tolerance s of NaN \<Rightarrow> False | Num x \<Rightarrow> 0 \<le> x))"
proof -
  have tol: "(isNaN (tolerance s) \<or> num_lt (tolerance s) 0)
               = (\<not> (case tolerance s of NaN \<Rightarrow> False | Num x \<Rightarrow> 0 \<le> x))"
    by (cases "tolerance s") auto
  show ?thesis
    unfolding validateSchedule_def js_ge_def js_gt_def timesInOrder_def tol
    using assms
    by (auto simp: js_lt_minutes)
qed

theorem validateSchedule_iff_invariant_witness:
  "wf_hhmm ''08:00'' \<and> wf_hhmm ''12:00'' \<and> wf_hhmm ''13:00'' \<and> wf_hhmm ''17:00'' \<and>
   validateSchedule \<lparr>name = ''Standard'', WorkSchedule.morningStart = ''08:00'',
      WorkSchedule.morningEnd = ''12:00'', WorkSchedule.afternoonStart = ''13:00'',
      WorkSchedule.afternoonEnd = ''17:00'', tolerance = Num 15, isActive = False\<rparr> \<and>
   trim ''Standard'' \<noteq> [] \<and>
   timesInOrder ''08:00'' ''12:00'' ''13:00'' ''17:00''"
proof -
  have w: "wf_hhmm ''08:00''" "wf_hhmm ''12:00''" "wf_hhmm ''13:00''" "wf_hhmm ''17:00''"
    by (simp_all add: isDigit_def digitVal_def)
  have n: "trim ''Standard'' \<noteq> []"
    by (simp add: trim_def isWhiteSpace_def)
  have o: "timesInOrder ''08:00'' ''12:00'' ''13:00'' ''17:00''"
    using w by (simp add: timesInOrder_def digitVal_def)
  show ?thesis
    using validateSchedule_iff_invariant
      [of "\<lparr>name = ''Standard'', WorkSchedule.morningStart = ''08:00'',
        WorkSchedule.morningEnd = ''12:00'', WorkSchedule.afternoonStart = ''13:00'',
        WorkSchedule.afternoonEnd = ''17:00'', tolerance = Num 15, isActive = False\<rparr>"] w n o
    by simp
qed

subsection \<open>Leave\<close>

text \<open>
  In the first copy of the page a day of leave (\<open>conge\<close> set) shows the leave notice
  \<open>Agent en <type_abs>\<close> and nothing else, whatever check-ins, check-outs, status, work
  hours and temporary exits come with the record.
\<close>

lemma leave_takes_precedence:
  assumes "conge d = Some True"
  shows "attendancePanel False (Some d) exits = AgentEn (type_abs d) \<and>
         statusShown (attendancePanel False (Some d) exits) = None \<and>
         workHoursShown (attendancePanel False (Some d) exits) = None"
  using assms by (simp add: attendancePanel_def)


subsection \<open>The evaluator of the specification\<close>

text \<open>
  Two facts about the evaluator written from the specification, for reference. On a day
  of leave it returns OnLeave and no worked minutes. On the example of section 8 of the
  specification it returns Present and 410 worked minutes: 170 from 09:10 to 12:00 and
  240 from 13:00 to 17:00.
\<close>

lemma evaluate_on_leave:
  "onLeave r \<Longrightarrow>
     dayStatus (evaluate now schedule r exits) = OnLeave \<and>
     workedMinutes (evaluate now schedule r exits) = 0"
  by (simp add: evaluate_def Let_def)

lemma evaluate_example_of_section_8:
  "evaluate (''2025-10-09'', ''18:00'')
      \<lparr>morningStart = ''09:00'', morningEnd = ''12:00'', afternoonStart = ''13:00'',
        afternoonEnd = ''17:00'', toleranceMinutes = 15\<rparr>
      \<lparr>date = ''2025-10-09'', morningCheckIn = Some ''09:10'', morningCheckOut = Some ''12:00'',
        afternoonCheckIn = Some ''13:00'', afternoonCheckOut = Some ''17:00'',
        onLeave = False, leaveType = []\<rparr> []
     = \<lparr>dayStatus = Present, workedMinutes = 410, missedMinutes = 10\<rparr>"
  by (simp add: evaluate_def lateArrival_def earlyDeparture_def workedSpan_def recordedTime_def
      falsy_def isDigit_def digitVal_def Let_def)

text \<open>
  C5. For every record that is not on leave and has none of its four times, the
  evaluator returns Absent with no worked minutes, whatever the schedule, the exits and
  the clock are; and the code classifies each of the four missing times \<open>'absent'\<close>,
  with the text \<open>'Not recorded'\<close>.
\<close>

theorem no_time_recorded_is_absent:
  assumes "\<not> onLeave r"
    and "morningCheckIn r = None" and "morningCheckOut r = None"
    and "afternoonCheckIn r = None" and "afternoonCheckOut r = None"
  shows "dayStatus (evaluate now schedule r exits) = Absent \<and>
         workedMinutes (evaluate now schedule r exits) = 0 \<and>
         formatTimeWithStatus (morningCheckIn r) scheduledTime type tol
           = \<lparr>time = ''Not recorded'', status = ''absent''\<rparr> \<and>
         formatTimeWithStatus (morningCheckOut r) scheduledTime type tol
           = \<lparr>time = ''Not recorded'', status = ''absent''\<rparr> \<and>
         formatTimeWithStatus (afternoonCheckIn r) scheduledTime type tol
           = \<lparr>time = ''Not recorded'', status = ''absent''\<rparr> \<and>
         formatTimeWithStatus (afternoonCheckOut r) scheduledTime type tol
           = \<lparr>time = ''Not recorded'', status = ''absent''\<rparr>"
  using assms by (simp add: evaluate_def formatTimeWithStatus_def falsy_def Let_def)

theorem no_time_recorded_is_absent_witness:
  "evaluate (''2025-10-09'', ''18:00'')
      \<lparr>morningStart = ''09:00'', morningEnd = ''12:00'', afternoonStart = ''13:00'',
        afternoonEnd = ''17:00'', toleranceMinutes = 15\<rparr>
      \<lparr>date = ''2025-10-09'', morningCheckIn = None, morningCheckOut = None,
        afternoonCheckIn = None, afternoonCheckOut = None, onLeave = False, leaveType = []\<rparr>
      [\<lparr>exitTime = ''10:00'', returnTime = None\<rparr>]
     = \<lparr>dayStatus = Absent, workedMinutes = 0, missedMinutes = 420\<rparr> \<and>
   formatTimeWithStatus None (Some ''09:00'') arrival (Some ''15'')
     = \<lparr>time = ''Not recorded'', status = ''absent''\<rparr>"
proof -
  let ?r = "\<lparr>date = ''2025-10-09'', morningCheckIn = None, morningCheckOut = None,
        afternoonCheckIn = None, afternoonCheckOut = None, onLeave = False, leaveType = []\<rparr>"
  let ?s = "\<lparr>morningStart = ''09:00'', morningEnd = ''12:00'', afternoonStart = ''13:00'',
        afternoonEnd = ''17:00'', toleranceMinutes = 15\<rparr>"
  let ?x = "[\<lparr>exitTime = ''10:00'', returnTime = None\<rparr>]"
  have m: "missedMinutes (evaluate (''2025-10-09'', ''18:00'') ?s ?r ?x) = 420"
    by (simp add: evaluate_def falsy_def digitVal_def Let_def)
  have "\<not> onLeave ?r" by simp
  from no_time_recorded_is_absent
    [OF this, of "(''2025-10-09'', ''18:00'')" ?s ?x "Some ''09:00''" arrival "Some ''15''"] m
  show ?thesis by (simp add: EvaluatedStatus.equality)
qed





text \<open>
  C9, the claim as stated fails. The claim: two calls of the evaluator with the same
  schedule, record and exits return the same result, and nothing else is read. The
  open-exit rule of the specification reads the clock: with an exit left open at 10:00 on
  today's record, the same schedule, record and exits give 150 worked minutes at 10:30 and
  120 at 11:00.
\<close>

theorem evaluate_reads_the_clock:
  "workedMinutes (evaluate (''2025-10-09'', ''10:30'')
      \<lparr>morningStart = ''09:00'', morningEnd = ''12:00'', afternoonStart = ''13:00'',
        afternoonEnd = ''17:00'', toleranceMinutes = 15\<rparr>
      \<lparr>date = ''2025-10-09'', morningCheckIn = Some ''09:00'', morningCheckOut = Some ''12:00'',
        afternoonCheckIn = None, afternoonCheckOut = None, onLeave = False, leaveType = []\<rparr>
      [\<lparr>exitTime = ''10:00'', returnTime = None\<rparr>]) = 150 \<and>
   workedMinutes (evaluate (''2025-10-09'', ''11:00'')
      \<lparr>morningStart = ''09:00'', morningEnd = ''12:00'', afternoonStart = ''13:00'',
        afternoonEnd = ''17:00'', toleranceMinutes = 15\<rparr>
      \<lparr>date = ''2025-10-09'', morningCheckIn = Some ''09:00'', morningCheckOut = Some ''12:00'',
        afternoonCheckIn = None, afternoonCheckOut = None, onLeave = False, leaveType = []\<rparr>
      [\<lparr>exitTime = ''10:00'', returnTime = None\<rparr>]) = 120"
  by (simp add: evaluate_def workedSpan_def recordedTime_def exitDeduction_def
      falsy_def isDigit_def digitVal_def Let_def)

text \<open>An exit that is closed, or a record of another day, does not read the clock.\<close>

lemma exitDeduction_clock:
  assumes "returnTime e \<noteq> None \<or> (date r \<noteq> fst now \<and> date r \<noteq> fst now')"
  shows "exitDeduction now r e = exitDeduction now' r e"
  using assms by (auto simp: exitDeduction_def split: option.splits)

text \<open>
  C9, amended. The clock is an input of the evaluator: its result is a function of the
  clock, the schedule, the record and the exits, and of nothing else. Whenever no exit
  is open, or the record is of the day of neither clock, two calls with the same
  schedule, record and exits return the same result at any two clocks.
\<close>

theorem evaluate_same_result_without_open_exit:
  assumes "list_all (\<lambda>e. returnTime e \<noteq> None) exits \<or>
           (date r \<noteq> fst now \<and> date r \<noteq> fst now')"
  shows "evaluate now schedule r exits = evaluate now' schedule r exits"
proof -
  have same: "map (exitDeduction now r) exits = map (exitDeduction now' r) exits"
  proof (rule map_cong [OF refl])
    fix e assume "e \<in> set exits"
    with assms have "returnTime e \<noteq> None \<or> (date r \<noteq> fst now \<and> date r \<noteq> fst now')"
      by (auto simp: list_all_iff)
    then show "exitDeduction now r e = exitDeduction now' r e"
      by (rule exitDeduction_clock)
  qed
  show ?thesis unfolding evaluate_def same by (rule refl)
qed

theorem evaluate_same_result_without_open_exit_witness:
  "list_all (\<lambda>e. returnTime e \<noteq> None) [\<lparr>exitTime = ''10:00'', returnTime = Some ''10:30''\<rparr>] \<and>
   evaluate (''2025-10-09'', ''10:30'')
      \<lparr>morningStart = ''09:00'', morningEnd = ''12:00'', afternoonStart = ''13:00'',
        afternoonEnd = ''17:00'', toleranceMinutes = 15\<rparr>
      \<lparr>date = ''2025-10-09'', morningCheckIn = Some ''09:00'', morningCheckOut = Some ''12:00'',
        afternoonCheckIn = None, afternoonCheckOut = None, onLeave = False, leaveType = []\<rparr>
      [\<lparr>exitTime = ''10:00'', returnTime = Some ''10:30''\<rparr>]
   = evaluate (''2025-10-09'', ''11:00'')
      \<lparr>morningStart = ''09:00'', morningEnd = ''12:00'', afternoonStart = ''13:00'',
        afternoonEnd = ''17:00'', toleranceMinutes = 15\<rparr>
      \<lparr>date = ''2025-10-09'', morningCheckIn = Some ''09:00'', morningCheckOut = Some ''12:00'',
        afternoonCheckIn = None, afternoonCheckOut = None, onLeave = False, leaveType = []\<rparr>
      [\<lparr>exitTime = ''10:00'', returnTime = Some ''10:30''\<rparr>] \<and>
   workedMinutes (evaluate (''2025-10-09'', ''11:00'')
      \<lparr>morningStart = ''09:00'', morningEnd = ''12:00'', afternoonStart = ''13:00'',
        afternoonEnd = ''17:00'', toleranceMinutes = 15\<rparr>
      \<lparr>date = ''2025-10-09'', morningCheckIn = Some ''09:00'', morningCheckOut = Some ''12:00'',
        afternoonCheckIn = None, afternoonCheckOut = None, onLeave = False, leaveType = []\<rparr>
      [\<lparr>exitTime = ''10:00'', returnTime = Some ''10:30''\<rparr>]) = 150"
proof -
  let ?x = "[\<lparr>exitTime = ''10:00'', returnTime = Some ''10:30''\<rparr>]"
  let ?s = "\<lparr>morningStart = ''09:00'', morningEnd = ''12:00'', afternoonStart = ''13:00'',
        afternoonEnd = ''17:00'', toleranceMinutes = 15\<rparr>"
  let ?r = "\<lparr>date = ''2025-10-09'', morningCheckIn = Some ''09:00'', morningCheckOut = Some ''12:00'',
        afternoonCheckIn = None, afternoonCheckOut = None, onLeave = False, leaveType = []\<rparr>"
  have h: "list_all (\<lambda>e. returnTime e \<noteq> None) ?x" by simp
  then have h': "list_all (\<lambda>e. returnTime e \<noteq> None) ?x \<or>
      (date ?r \<noteq> fst (''2025-10-09'', ''10:30'') \<and> date ?r \<noteq> fst (''2025-10-09'', ''11:00''))"
    by (rule disjI1)
  have w: "workedMinutes (evaluate (''2025-10-09'', ''11:00'') ?s ?r ?x) = 150"
    by (simp add: evaluate_def workedSpan_def recordedTime_def exitDeduction_def withinSpan_def
      falsy_def isDigit_def digitVal_def Let_def)
  show ?thesis
    using evaluate_same_result_without_open_exit [OF h', of ?s] h w by simp
qed

end
